theory Spec2Isabelle
  imports Complex_Main
begin

section \<open>Numbers and engine library functions\<close>

text \<open>
  The C++ \<^verbatim>\<open>float\<close> values of the plugin are modelled as real numbers, with exact
  arithmetic, everywhere except in the section on single-precision evaluation, which
  rounds every operation to binary32; infinities and NaN are outside this development.
  The functions below belong to the engine's math library (\<^verbatim>\<open>FMath\<close>, \<^verbatim>\<open>FVector\<close>);
  they are written out with their library meaning because the plugin code calls them.
\<close>

definition Clamp :: "real \<Rightarrow> real \<Rightarrow> real \<Rightarrow> real" where
  \<comment> \<open>\<^verbatim>\<open>FMath::Clamp(X, Min, Max)\<close>\<close>
  "Clamp x lo hi = (if x < lo then lo else if x < hi then x else hi)"

definition Max :: "real \<Rightarrow> real \<Rightarrow> real" where
  \<comment> \<open>\<^verbatim>\<open>FMath::Max(A, B)\<close>\<close>
  "Max a b = (if b < a then a else b)"

definition Lerp :: "real \<Rightarrow> real \<Rightarrow> real \<Rightarrow> real" where
  \<comment> \<open>\<^verbatim>\<open>FMath::Lerp(A, B, Alpha)\<close>\<close>
  "Lerp a b alpha = a + alpha * (b - a)"

record FVector =
  X :: real
  Y :: real
  Z :: real

definition ZeroVector :: FVector where
  "ZeroVector = \<lparr>X = 0, Y = 0, Z = 0\<rparr>"

definition IsZero :: "FVector \<Rightarrow> bool" where
  \<comment> \<open>\<^verbatim>\<open>FVector::IsZero()\<close>: all three components are exactly zero\<close>
  "IsZero v \<longleftrightarrow> X v = 0 \<and> Y v = 0 \<and> Z v = 0"

definition Size :: "FVector \<Rightarrow> real" where
  \<comment> \<open>\<^verbatim>\<open>FVector::Size()\<close>\<close>
  "Size v = sqrt (X v * X v + Y v * Y v + Z v * Z v)"

definition Distance :: "FVector \<Rightarrow> FVector \<Rightarrow> real" where
  \<comment> \<open>\<^verbatim>\<open>FVector::Distance(V1, V2)\<close>\<close>
  "Distance a b = Size \<lparr>X = X a - X b, Y = Y a - Y b, Z = Z a - Z b\<rparr>"


section \<open>The threat service (SoulvanThreatService.h, SoulvanThreatService.cpp)\<close>

text \<open>
  The editable properties of \<^verbatim>\<open>UBTService_ThreatUpdate\<close> that the computation reads.
\<close>

record UBTService_ThreatUpdate =
  RivalWeight :: real
  PoliceWeight :: real
  SpeedWeight :: real
  DamageWeight :: real
  MaxSpeedKmh :: real

definition DefaultService :: UBTService_ThreatUpdate where
  \<comment> \<open>the in-class initialisers of the header\<close>
  "DefaultService =
     \<lparr>RivalWeight = 45 / 100, PoliceWeight = 35 / 100, SpeedWeight = 15 / 100,
      DamageWeight = 5 / 100, MaxSpeedKmh = 220\<rparr>"

text \<open>
  The local variables of \<^verbatim>\<open>CalculateThreat\<close>, in the order the function computes them.
  The \<^verbatim>\<open>AActor* Rival\<close> argument is the rival's location when the pointer is not null.
\<close>

definition RivalProx :: "FVector option \<Rightarrow> FVector \<Rightarrow> real" where
  "RivalProx Rival SelfPos =
     (case Rival of
        None \<Rightarrow> 0
      | Some RivalLocation \<Rightarrow> 1 / Max 1 (Distance SelfPos RivalLocation))"

definition PoliceProx :: "FVector \<Rightarrow> FVector \<Rightarrow> real" where
  "PoliceProx PolicePos SelfPos =
     (if \<not> IsZero PolicePos then 1 / Max 1 (Distance SelfPos PolicePos) else 0)"

definition SpeedRisk :: "UBTService_ThreatUpdate \<Rightarrow> real \<Rightarrow> real" where
  "SpeedRisk svc Speed = Clamp (Speed / MaxSpeedKmh svc) 0 1"

definition DamageRisk :: "real \<Rightarrow> real" where
  "DamageRisk Damage = Clamp Damage 0 1"

definition CalculateThreat ::
  "UBTService_ThreatUpdate \<Rightarrow> FVector option \<Rightarrow> FVector \<Rightarrow> real \<Rightarrow> real \<Rightarrow> FVector \<Rightarrow> real" where
  "CalculateThreat svc Rival PolicePos Speed Damage SelfPos =
     (let Threat = RivalWeight svc * RivalProx Rival SelfPos +
                   PoliceWeight svc * PoliceProx PolicePos SelfPos +
                   SpeedWeight svc * SpeedRisk svc Speed +
                   DamageWeight svc * DamageRisk Damage
      in Clamp Threat 0 1)"

text \<open>
  The world that \<^verbatim>\<open>TickNode\<close> reads and writes. A pawn that casts to
  \<^verbatim>\<open>AWheeledVehiclePawn\<close> carries the forward speed of its movement component.
  The blackboard has one slot for each of the six key selectors of the service, which
  are taken to name six different entries.
\<close>

record APawn =
  ActorLocation :: FVector
  Velocity :: FVector
  VehicleForwardSpeed :: "real option"

record AAIController =
  Pawn :: "APawn option"

record UBlackboardComponent =
  RivalValue :: "FVector option"
  LastThreatPosValue :: FVector
  DamagePctValue :: real
  ThreatLevelValue :: real
  SpeedKmhValue :: real
  MotifIntensityValue :: real

record UBehaviorTreeComponent =
  BlackboardComponent :: "UBlackboardComponent option"
  AIOwner :: "AAIController option"

definition PawnSpeedKmh :: "APawn \<Rightarrow> real" where
  \<comment> \<open>cm/s to km/h\<close>
  "PawnSpeedKmh SelfPawn =
     (case VehicleForwardSpeed SelfPawn of
        Some ForwardSpeed \<Rightarrow> ForwardSpeed * (36 / 1000)
      | None \<Rightarrow> Size (Velocity SelfPawn) * (36 / 1000))"

definition MotifIntensityOf :: "real \<Rightarrow> real" where
  "MotifIntensityOf Threat = Clamp (4 / 10 + Threat * (6 / 10)) 0 1"

definition TickNode :: "UBTService_ThreatUpdate \<Rightarrow> UBehaviorTreeComponent \<Rightarrow> UBehaviorTreeComponent" where
  "TickNode svc OwnerComp =
     (case BlackboardComponent OwnerComp of
        None \<Rightarrow> OwnerComp
      | Some Blackboard \<Rightarrow>
     (case AIOwner OwnerComp of
        None \<Rightarrow> OwnerComp
      | Some AIController \<Rightarrow>
     (case Pawn AIController of
        None \<Rightarrow> OwnerComp
      | Some SelfPawn \<Rightarrow>
          (let Rival = RivalValue Blackboard;
               LastThreatPos = LastThreatPosValue Blackboard;
               DamagePct = DamagePctValue Blackboard;
               SpeedKmh = PawnSpeedKmh SelfPawn;
               Threat = CalculateThreat svc Rival LastThreatPos SpeedKmh DamagePct
                          (ActorLocation SelfPawn);
               MotifIntensity = MotifIntensityOf Threat
           in OwnerComp\<lparr>BlackboardComponent :=
                Some (Blackboard\<lparr>ThreatLevelValue := Threat,
                                  SpeedKmhValue := SpeedKmh,
                                  MotifIntensityValue := MotifIntensity\<rparr>)\<rparr>))))"

text \<open>
  A tick produces a result exactly when the blackboard, the controller and the pawn are
  all there; otherwise \<^verbatim>\<open>TickNode\<close> returns before it writes anything.
\<close>

definition Produces :: "UBehaviorTreeComponent \<Rightarrow> bool" where
  "Produces OwnerComp \<longleftrightarrow>
     (case BlackboardComponent OwnerComp of
        None \<Rightarrow> False
      | Some _ \<Rightarrow>
          (case AIOwner OwnerComp of
             None \<Rightarrow> False
           | Some AIController \<Rightarrow> Pawn AIController \<noteq> None))"


section \<open>The motif component (SoulvanMotifComponent.h, SoulvanMotifComponent.cpp)\<close>

datatype EMotif = Storm | Calm | Cosmic | Oracle

text \<open>
  The engine objects the component points to. Of a Niagara component the model keeps the
  active flag and the float parameters by name; of the audio component the sound it
  holds, the two multipliers, and a count of the \<^verbatim>\<open>Play()\<close> calls it has received.
  A sound asset is known by its identity only.
\<close>

type_synonym USoundBase = nat

record UNiagaraComponent =
  Active :: bool
  FloatParameters :: "string \<rightharpoonup> real"

record UAudioComponent =
  Sound :: "USoundBase option"
  PitchMultiplier :: real
  VolumeMultiplier :: real
  PlayCalls :: nat

definition SetActive :: "UNiagaraComponent \<Rightarrow> bool \<Rightarrow> UNiagaraComponent" where
  "SetActive n b = n\<lparr>Active := b\<rparr>"

definition SetFloatParameter :: "UNiagaraComponent \<Rightarrow> string \<Rightarrow> real \<Rightarrow> UNiagaraComponent" where
  "SetFloatParameter n ParamName Value =
     n\<lparr>FloatParameters := (FloatParameters n)(ParamName \<mapsto> Value)\<rparr>"

definition SetSound :: "UAudioComponent \<Rightarrow> USoundBase \<Rightarrow> UAudioComponent" where
  "SetSound a NewSound = a\<lparr>Sound := Some NewSound\<rparr>"

definition Play :: "UAudioComponent \<Rightarrow> UAudioComponent" where
  "Play a = a\<lparr>PlayCalls := Suc (PlayCalls a)\<rparr>"

definition SetPitchMultiplier :: "UAudioComponent \<Rightarrow> real \<Rightarrow> UAudioComponent" where
  "SetPitchMultiplier a v = a\<lparr>PitchMultiplier := v\<rparr>"

definition SetVolumeMultiplier :: "UAudioComponent \<Rightarrow> real \<Rightarrow> UAudioComponent" where
  "SetVolumeMultiplier a v = a\<lparr>VolumeMultiplier := v\<rparr>"

text \<open>
  The component. Every pointer member may be null (\<open>None\<close>). A Niagara pointer is the
  address of an object, and two members may hold the same address; the objects live in
  \<open>NiagaraObjects\<close>, which the calls through the pointers update.
\<close>

type_synonym NiagaraRef = nat

record USoulvanMotifComponent =
  StormRain :: "NiagaraRef option"
  CalmFog :: "NiagaraRef option"
  CosmicAurora :: "NiagaraRef option"
  OracleRunes :: "NiagaraRef option"
  MusicBus :: "UAudioComponent option"
  StormMusic :: "USoundBase option"
  CalmMusic :: "USoundBase option"
  CosmicMusic :: "USoundBase option"
  OracleMusic :: "USoundBase option"
  CurrentMotif :: EMotif
  CurrentIntensity :: real
  NiagaraObjects :: "NiagaraRef \<Rightarrow> UNiagaraComponent"

definition IdleNiagara :: UNiagaraComponent where
  "IdleNiagara = \<lparr>Active = False, FloatParameters = Map.empty\<rparr>"

definition NewMotifComponent :: USoulvanMotifComponent where
  \<comment> \<open>the constructor: no pointer member is assigned\<close>
  "NewMotifComponent =
     \<lparr>StormRain = None, CalmFog = None, CosmicAurora = None, OracleRunes = None,
      MusicBus = None, StormMusic = None, CalmMusic = None, CosmicMusic = None,
      OracleMusic = None, CurrentMotif = Storm, CurrentIntensity = 1 / 2,
      NiagaraObjects = (\<lambda>a. IdleNiagara)\<rparr>"

definition SetActiveIfPresent ::
  "(NiagaraRef \<Rightarrow> UNiagaraComponent) \<Rightarrow> NiagaraRef option \<Rightarrow> bool
     \<Rightarrow> (NiagaraRef \<Rightarrow> UNiagaraComponent)" where
  \<comment> \<open>\<^verbatim>\<open>if (Comp) Comp->SetActive(b);\<close>\<close>
  "SetActiveIfPresent objs Comp b =
     (case Comp of None \<Rightarrow> objs | Some a \<Rightarrow> objs(a := SetActive (objs a) b))"

definition SetNiagaraFloatParameter ::
  "(NiagaraRef \<Rightarrow> UNiagaraComponent) \<Rightarrow> NiagaraRef option \<Rightarrow> string \<Rightarrow> real
     \<Rightarrow> (NiagaraRef \<Rightarrow> UNiagaraComponent)" where
  "SetNiagaraFloatParameter objs Comp ParamName Value =
     (case Comp of
        None \<Rightarrow> objs
      | Some a \<Rightarrow> objs(a := SetFloatParameter (objs a) ParamName Value))"

definition BaseRate :: "real \<Rightarrow> real" where
  \<comment> \<open>the local \<^verbatim>\<open>BaseRate\<close> of \<^verbatim>\<open>UpdateVisualFX\<close>\<close>
  "BaseRate Intensity = Lerp 10 200 Intensity"

definition UpdateVisualFX :: "USoulvanMotifComponent \<Rightarrow> EMotif \<Rightarrow> real \<Rightarrow> USoulvanMotifComponent" where
  "UpdateVisualFX c Motif Intensity =
     (let o1 = SetActiveIfPresent (NiagaraObjects c) (StormRain c) (Motif = Storm);
          o2 = SetActiveIfPresent o1 (CalmFog c) (Motif = Calm);
          o3 = SetActiveIfPresent o2 (CosmicAurora c) (Motif = Cosmic);
          o4 = SetActiveIfPresent o3 (OracleRunes c) (Motif = Oracle);
          o5 = SetNiagaraFloatParameter o4 (StormRain c) ''EmissionRate'' (BaseRate Intensity);
          o6 = SetNiagaraFloatParameter o5 (CalmFog c) ''EmissionRate''
                 (BaseRate Intensity * (5 / 10));
          o7 = SetNiagaraFloatParameter o6 (CosmicAurora c) ''EmissionRate''
                 (BaseRate Intensity * (8 / 10));
          o8 = SetNiagaraFloatParameter o7 (OracleRunes c) ''EmissionRate''
                 (BaseRate Intensity * (6 / 10))
      in c\<lparr>NiagaraObjects := o8\<rparr>)"

definition TargetMusic :: "USoulvanMotifComponent \<Rightarrow> EMotif \<Rightarrow> USoundBase option" where
  \<comment> \<open>the \<^verbatim>\<open>switch\<close> of \<^verbatim>\<open>UpdateAudio\<close>\<close>
  "TargetMusic c Motif =
     (case Motif of
        Storm \<Rightarrow> StormMusic c
      | Calm \<Rightarrow> CalmMusic c
      | Cosmic \<Rightarrow> CosmicMusic c
      | Oracle \<Rightarrow> OracleMusic c)"

definition UpdateAudio :: "USoulvanMotifComponent \<Rightarrow> EMotif \<Rightarrow> real \<Rightarrow> USoulvanMotifComponent" where
  "UpdateAudio c Motif Intensity =
     (case MusicBus c of
        None \<Rightarrow> c
      | Some bus \<Rightarrow>
          (let bus1 = (case TargetMusic c Motif of
                         None \<Rightarrow> bus
                       | Some Target \<Rightarrow>
                           if Sound bus \<noteq> Some Target then Play (SetSound bus Target) else bus);
               bus2 = SetPitchMultiplier bus1 (Lerp (95 / 100) (108 / 100) Intensity);
               bus3 = SetVolumeMultiplier bus2 (Lerp (6 / 10) 1 Intensity)
           in c\<lparr>MusicBus := Some bus3\<rparr>))"

definition SetMotif :: "USoulvanMotifComponent \<Rightarrow> EMotif \<Rightarrow> real \<Rightarrow> USoulvanMotifComponent" where
  "SetMotif c Motif Intensity01 =
     (let c1 = c\<lparr>CurrentMotif := Motif, CurrentIntensity := Clamp Intensity01 0 1\<rparr>;
          c2 = UpdateVisualFX c1 Motif (CurrentIntensity c1)
      in UpdateAudio c2 Motif (CurrentIntensity c2))"

text \<open>
  Observations used to state the properties of the overlays: the pointer and the object
  of a motif kind, whether the object of a kind is shared with no other kind, the rate
  multiplier the specification gives each kind, and the kinds whose attached overlay has
  its active flag set.
\<close>

definition OverlayRef :: "USoulvanMotifComponent \<Rightarrow> EMotif \<Rightarrow> NiagaraRef option" where
  "OverlayRef c k =
     (case k of
        Storm \<Rightarrow> StormRain c
      | Calm \<Rightarrow> CalmFog c
      | Cosmic \<Rightarrow> CosmicAurora c
      | Oracle \<Rightarrow> OracleRunes c)"

definition Overlay :: "USoulvanMotifComponent \<Rightarrow> EMotif \<Rightarrow> UNiagaraComponent option" where
  "Overlay c k = map_option (NiagaraObjects c) (OverlayRef c k)"

definition Unshared :: "USoulvanMotifComponent \<Rightarrow> EMotif \<Rightarrow> bool" where
  "Unshared c k =
     list_all (\<lambda>k'. k' = k \<or> OverlayRef c k' \<noteq> OverlayRef c k) [Storm, Calm, Cosmic, Oracle]"

definition KindMultiplier :: "EMotif \<Rightarrow> real" where
  "KindMultiplier k =
     (case k of Storm \<Rightarrow> 1 | Calm \<Rightarrow> 5 / 10 | Cosmic \<Rightarrow> 8 / 10 | Oracle \<Rightarrow> 6 / 10)"

definition IsActive :: "USoulvanMotifComponent \<Rightarrow> EMotif \<Rightarrow> bool" where
  "IsActive c k = (case Overlay c k of None \<Rightarrow> False | Some n \<Rightarrow> Active n)"

definition ActiveKinds :: "USoulvanMotifComponent \<Rightarrow> EMotif list" where
  "ActiveKinds c = filter (IsActive c) [Storm, Calm, Cosmic, Oracle]"

definition EmissionRate :: "USoulvanMotifComponent \<Rightarrow> EMotif \<Rightarrow> real option" where
  "EmissionRate c k =
     (case Overlay c k of None \<Rightarrow> None | Some n \<Rightarrow> FloatParameters n ''EmissionRate'')"

definition TrackStarts :: "USoulvanMotifComponent \<Rightarrow> nat" where
  \<comment> \<open>the number of track starts the music bus has been sent; none without a bus\<close>
  "TrackStarts c = (case MusicBus c of None \<Rightarrow> 0 | Some bus \<Rightarrow> PlayCalls bus)"

text \<open>
  Closed forms of what one call does to an overlay object that no other kind shares and
  to an attached music bus; the proofs below show that the functions above compute them.
\<close>

definition WithOverlay :: "EMotif \<Rightarrow> real \<Rightarrow> EMotif \<Rightarrow> UNiagaraComponent \<Rightarrow> UNiagaraComponent" where
  "WithOverlay Motif Intensity k n =
     n\<lparr>Active := (Motif = k),
       FloatParameters := (FloatParameters n)(''EmissionRate'' \<mapsto>
          Lerp 10 200 Intensity * KindMultiplier k)\<rparr>"

definition BusAfter :: "USoundBase option \<Rightarrow> real \<Rightarrow> UAudioComponent \<Rightarrow> UAudioComponent" where
  "BusAfter Target Intensity bus =
     bus\<lparr>Sound := (if Target = None then Sound bus else Target),
         PlayCalls := (if Target \<noteq> None \<and> Sound bus \<noteq> Target
                       then Suc (PlayCalls bus) else PlayCalls bus),
         PitchMultiplier := Lerp (95 / 100) (108 / 100) Intensity,
         VolumeMultiplier := Lerp (6 / 10) 1 Intensity\<rparr>"

text \<open>
  A component with four different overlay objects, the music bus and the four tracks
  attached, and one whose Storm and Calm members point to the same object.
\<close>

definition IdleBus :: UAudioComponent where
  "IdleBus = \<lparr>Sound = None, PitchMultiplier = 1, VolumeMultiplier = 1, PlayCalls = 0\<rparr>"

definition WiredMotifComponent :: USoulvanMotifComponent where
  "WiredMotifComponent =
     \<lparr>StormRain = Some 0, CalmFog = Some 1, CosmicAurora = Some 2, OracleRunes = Some 3,
      MusicBus = Some IdleBus, StormMusic = Some 1, CalmMusic = Some 2,
      CosmicMusic = Some 3, OracleMusic = Some 4,
      CurrentMotif = Storm, CurrentIntensity = 1 / 2,
      NiagaraObjects = (\<lambda>a. IdleNiagara)\<rparr>"

definition SharedMotifComponent :: USoulvanMotifComponent where
  "SharedMotifComponent = WiredMotifComponent\<lparr>CalmFog := Some 0\<rparr>"


text \<open>The tick of the specification's worked example: a rival ten units away, no pursuer.\<close>

definition ExampleRival :: FVector where
  "ExampleRival = \<lparr>X = 10, Y = 0, Z = 0\<rparr>"

definition ExamplePawn :: APawn where
  "ExamplePawn =
     \<lparr>ActorLocation = ZeroVector, Velocity = ZeroVector,
      VehicleForwardSpeed = Some (27500 / 9)\<rparr>"

definition ExampleBlackboard :: UBlackboardComponent where
  "ExampleBlackboard =
     \<lparr>RivalValue = Some ExampleRival, LastThreatPosValue = ZeroVector,
      DamagePctValue = 2 / 10, ThreatLevelValue = 0, SpeedKmhValue = 0,
      MotifIntensityValue = 0\<rparr>"

definition ExampleOwnerComp :: UBehaviorTreeComponent where
  "ExampleOwnerComp =
     \<lparr>BlackboardComponent = Some ExampleBlackboard,
      AIOwner = Some \<lparr>Pawn = Some ExamplePawn\<rparr>\<rparr>"


text \<open>A configuration with a negative damage weight; the properties are editable floats.\<close>

definition NegativeDamageService :: UBTService_ThreatUpdate where
  "NegativeDamageService =
     \<lparr>RivalWeight = 0, PoliceWeight = 0, SpeedWeight = 1, DamageWeight = - 1,
      MaxSpeedKmh = 220\<rparr>"


section \<open>Single-precision evaluation of the threat service\<close>

text \<open>
  The code computes in \<^verbatim>\<open>float\<close>. \<open>Float32Round\<close> takes a real number to the nearest
  binary32 value, ties to the even significand: the exponent is the largest \<open>e\<close> from
  127 down to \<open>- 126\<close> with \<open>2 powi e \<le> \<bar>x\<bar>\<close> (\<open>- 126\<close> when there is none, which gives
  the subnormal spacing), and the value is rounded to a multiple of \<open>2 powi (e - 23)\<close>.
  Overflow to infinity, NaN and the sign of zero are not represented. Every arithmetic
  operation of the source is rounded once, in the order the source writes it, without
  fused multiply-add.
\<close>

definition RoundEven :: "real \<Rightarrow> int" where
  "RoundEven x =
     (let f = \<lfloor>x\<rfloor>; r = x - of_int f
      in if r < 1 / 2 then f else if 1 / 2 < r then f + 1 else if even f then f else f + 1)"

fun Float32ExponentFrom :: "nat \<Rightarrow> int \<Rightarrow> real \<Rightarrow> int" where
  "Float32ExponentFrom 0 e x = e"
| "Float32ExponentFrom (Suc n) e x =
     (if 2 powi e \<le> x then e else Float32ExponentFrom n (e - 1) x)"

definition Float32Exponent :: "real \<Rightarrow> int" where
  "Float32Exponent x = Float32ExponentFrom 253 127 \<bar>x\<bar>"

definition Float32Round :: "real \<Rightarrow> real" where
  "Float32Round x =
     (let e = Float32Exponent x
      in of_int (RoundEven (x / 2 powi (e - 23))) * 2 powi (e - 23))"

definition Float32Add :: "real \<Rightarrow> real \<Rightarrow> real" where
  "Float32Add a b = Float32Round (a + b)"

definition Float32Mul :: "real \<Rightarrow> real \<Rightarrow> real" where
  "Float32Mul a b = Float32Round (a * b)"

definition Float32Div :: "real \<Rightarrow> real \<Rightarrow> real" where
  "Float32Div a b = Float32Round (a / b)"

definition DefaultServiceFloat :: UBTService_ThreatUpdate where
  \<comment> \<open>the literals \<^verbatim>\<open>0.45f\<close>, \<^verbatim>\<open>0.35f\<close>, \<^verbatim>\<open>0.15f\<close>, \<^verbatim>\<open>0.05f\<close>, \<^verbatim>\<open>220.f\<close> of the header\<close>
  "DefaultServiceFloat =
     \<lparr>RivalWeight = Float32Round (45 / 100), PoliceWeight = Float32Round (35 / 100),
      SpeedWeight = Float32Round (15 / 100), DamageWeight = Float32Round (5 / 100),
      MaxSpeedKmh = Float32Round 220\<rparr>"

definition RivalProxFloat :: "FVector option \<Rightarrow> FVector \<Rightarrow> real" where
  "RivalProxFloat Rival SelfPos =
     (case Rival of
        None \<Rightarrow> 0
      | Some RivalLocation \<Rightarrow>
          Float32Div 1 (Max 1 (Float32Round (Distance SelfPos RivalLocation))))"

definition PoliceProxFloat :: "FVector \<Rightarrow> FVector \<Rightarrow> real" where
  "PoliceProxFloat PolicePos SelfPos =
     (if \<not> IsZero PolicePos
      then Float32Div 1 (Max 1 (Float32Round (Distance SelfPos PolicePos))) else 0)"

definition SpeedRiskFloat :: "UBTService_ThreatUpdate \<Rightarrow> real \<Rightarrow> real" where
  "SpeedRiskFloat svc Speed = Clamp (Float32Div Speed (MaxSpeedKmh svc)) 0 1"

definition CalculateThreatFloat ::
  "UBTService_ThreatUpdate \<Rightarrow> FVector option \<Rightarrow> FVector \<Rightarrow> real \<Rightarrow> real \<Rightarrow> FVector \<Rightarrow> real" where
  "CalculateThreatFloat svc Rival PolicePos Speed Damage SelfPos =
     (let Threat =
            Float32Add
              (Float32Add
                 (Float32Add (Float32Mul (RivalWeight svc) (RivalProxFloat Rival SelfPos))
                    (Float32Mul (PoliceWeight svc) (PoliceProxFloat PolicePos SelfPos)))
                 (Float32Mul (SpeedWeight svc) (SpeedRiskFloat svc Speed)))
              (Float32Mul (DamageWeight svc) (DamageRisk Damage))
      in Clamp Threat 0 1)"

definition MotifIntensityOfFloat :: "real \<Rightarrow> real" where
  \<comment> \<open>\<^verbatim>\<open>FMath::Clamp(0.4f + Threat * 0.6f, 0.f, 1.f)\<close>\<close>
  "MotifIntensityOfFloat Threat =
     Clamp (Float32Add (Float32Round (4 / 10)) (Float32Mul Threat (Float32Round (6 / 10)))) 0 1"


section \<open>Helper facts\<close>

lemma Clamp_unit_bounds: "0 \<le> Clamp x 0 1 \<and> Clamp x 0 1 \<le> 1"
  by (simp add: Clamp_def)

lemma Clamp_mono: "x \<le> y \<Longrightarrow> Clamp x 0 1 \<le> Clamp y 0 1"
  by (simp add: Clamp_def)

lemma TickNode_produces:
  assumes "BlackboardComponent oc = Some bb" "AIOwner oc = Some ctl" "Pawn ctl = Some p"
  shows "BlackboardComponent (TickNode svc oc) =
           Some (bb\<lparr>ThreatLevelValue :=
                       CalculateThreat svc (RivalValue bb) (LastThreatPosValue bb)
                         (PawnSpeedKmh p) (DamagePctValue bb) (ActorLocation p),
                    SpeedKmhValue := PawnSpeedKmh p,
                    MotifIntensityValue :=
                       MotifIntensityOf
                         (CalculateThreat svc (RivalValue bb) (LastThreatPosValue bb)
                            (PawnSpeedKmh p) (DamagePctValue bb) (ActorLocation p))\<rparr>)"
  using assms by (simp add: TickNode_def Let_def)

lemma Size_nonneg: "0 \<le> Size v"
  by (simp add: Size_def)

lemma Distance_nonneg: "0 \<le> Distance a b"
  by (simp add: Distance_def Size_nonneg)

lemma Max_eq_max: "Max a b = max a b"
  by (simp add: Max_def max_def)

lemma inv_Max_bounds: "0 < 1 / Max 1 d \<and> 1 / Max 1 d \<le> 1"
  by (simp add: Max_def)

lemma inv_Max_antimono: "d' \<le> d \<Longrightarrow> 1 / Max 1 d \<le> 1 / Max 1 d'"
  by (simp add: Max_def frac_le)

lemma MotifIntensityOf_affine:
  "0 \<le> t \<Longrightarrow> t \<le> 1 \<Longrightarrow> MotifIntensityOf t = 4 / 10 + 6 / 10 * t"
  by (simp add: MotifIntensityOf_def Clamp_def)

lemma CalculateThreat_bounds:
  "0 \<le> CalculateThreat svc R P v d s \<and> CalculateThreat svc R P v d s \<le> 1"
  by (simp add: CalculateThreat_def Let_def Clamp_unit_bounds)

lemma Produces_cases:
  "Produces oc \<longleftrightarrow>
     (\<exists>bb ctl p. BlackboardComponent oc = Some bb \<and> AIOwner oc = Some ctl \<and> Pawn ctl = Some p)"
  by (auto simp: Produces_def split: option.splits)

lemma ExampleOwnerComp_Produces: "Produces ExampleOwnerComp"
  by (simp add: Produces_def ExampleOwnerComp_def)

lemma DefaultService_MaxSpeed: "0 < MaxSpeedKmh DefaultService"
  by (simp add: DefaultService_def)

lemma Distance_Example: "Distance ZeroVector ExampleRival = 10"
proof -
  have "sqrt (10 * 10) = \<bar>10::real\<bar>" by (rule real_sqrt_abs2)
  then have "sqrt 100 = (10::real)" by simp
  then show ?thesis
    by (simp add: Distance_def Size_def ZeroVector_def ExampleRival_def)
qed

lemma IsZero_ZeroVector: "IsZero ZeroVector"
  by (simp add: IsZero_def ZeroVector_def)


lemma Distance_Zero_Zero: "Distance ZeroVector ZeroVector = 0"
  by (simp add: Distance_def Size_def ZeroVector_def)

lemma Distance_Zero_UnitX: "Distance ZeroVector \<lparr>X = 1, Y = 0, Z = 0\<rparr> = 1"
  by (simp add: Distance_def Size_def ZeroVector_def)

lemma not_IsZero_ExampleRival: "\<not> IsZero ExampleRival"
  by (simp add: IsZero_def ExampleRival_def)

lemma not_IsZero_UnitX: "\<not> IsZero \<lparr>X = 1, Y = 0, Z = 0\<rparr>"
  by (simp add: IsZero_def)

lemma DefaultService_weights_nonneg:
  "0 \<le> RivalWeight DefaultService" "0 \<le> PoliceWeight DefaultService"
  "0 \<le> SpeedWeight DefaultService" "0 \<le> DamageWeight DefaultService"
  by (simp_all add: DefaultService_def)


lemma UpdateVisualFX_other:
  "StormRain (UpdateVisualFX c m I) = StormRain c"
  "CalmFog (UpdateVisualFX c m I) = CalmFog c"
  "CosmicAurora (UpdateVisualFX c m I) = CosmicAurora c"
  "OracleRunes (UpdateVisualFX c m I) = OracleRunes c"
  "MusicBus (UpdateVisualFX c m I) = MusicBus c"
  "StormMusic (UpdateVisualFX c m I) = StormMusic c"
  "CalmMusic (UpdateVisualFX c m I) = CalmMusic c"
  "CosmicMusic (UpdateVisualFX c m I) = CosmicMusic c"
  "OracleMusic (UpdateVisualFX c m I) = OracleMusic c"
  "CurrentMotif (UpdateVisualFX c m I) = CurrentMotif c"
  "CurrentIntensity (UpdateVisualFX c m I) = CurrentIntensity c"
  by (simp_all add: UpdateVisualFX_def Let_def)

lemma OverlayRef_UpdateVisualFX: "OverlayRef (UpdateVisualFX c m I) k = OverlayRef c k"
  by (simp add: OverlayRef_def UpdateVisualFX_other split: EMotif.split)

lemma Unshared_cases:
  "Unshared c k \<longleftrightarrow>
     (k = Storm \<or> StormRain c \<noteq> OverlayRef c k) \<and> (k = Calm \<or> CalmFog c \<noteq> OverlayRef c k)
     \<and> (k = Cosmic \<or> CosmicAurora c \<noteq> OverlayRef c k)
     \<and> (k = Oracle \<or> OracleRunes c \<noteq> OverlayRef c k)"
  by (auto simp: Unshared_def OverlayRef_def)

lemma UpdateVisualFX_object:
  assumes "OverlayRef c k = Some a" and "Unshared c k"
  shows "NiagaraObjects (UpdateVisualFX c m I) a = WithOverlay m I k (NiagaraObjects c a)"
proof (cases k)
  case Storm
  with assms show ?thesis
    by (simp add: Unshared_cases OverlayRef_def UpdateVisualFX_def Let_def
        SetActiveIfPresent_def SetNiagaraFloatParameter_def SetActive_def SetFloatParameter_def
        BaseRate_def KindMultiplier_def WithOverlay_def split: option.split)
next
  case Calm
  with assms show ?thesis
    by (simp add: Unshared_cases OverlayRef_def UpdateVisualFX_def Let_def
        SetActiveIfPresent_def SetNiagaraFloatParameter_def SetActive_def SetFloatParameter_def
        BaseRate_def KindMultiplier_def WithOverlay_def split: option.split)
next
  case Cosmic
  with assms show ?thesis
    by (simp add: Unshared_cases OverlayRef_def UpdateVisualFX_def Let_def
        SetActiveIfPresent_def SetNiagaraFloatParameter_def SetActive_def SetFloatParameter_def
        BaseRate_def KindMultiplier_def WithOverlay_def split: option.split)
next
  case Oracle
  with assms show ?thesis
    by (simp add: Unshared_cases OverlayRef_def UpdateVisualFX_def Let_def
        SetActiveIfPresent_def SetNiagaraFloatParameter_def SetActive_def SetFloatParameter_def
        BaseRate_def KindMultiplier_def WithOverlay_def split: option.split)
qed

lemma UpdateVisualFX_Overlay:
  "Unshared c k \<Longrightarrow>
     Overlay (UpdateVisualFX c m I) k = map_option (WithOverlay m I k) (Overlay c k)"
  by (cases "OverlayRef c k")
    (simp_all add: Overlay_def OverlayRef_UpdateVisualFX UpdateVisualFX_object)

lemma UpdateVisualFX_Overlay_None:
  "Overlay c k = None \<Longrightarrow> Overlay (UpdateVisualFX c m I) k = None"
  by (simp add: Overlay_def OverlayRef_UpdateVisualFX)

lemma UpdateAudio_other:
  "NiagaraObjects (UpdateAudio c m I) = NiagaraObjects c"
  "OverlayRef (UpdateAudio c m I) k = OverlayRef c k"
  "StormMusic (UpdateAudio c m I) = StormMusic c"
  "CalmMusic (UpdateAudio c m I) = CalmMusic c"
  "CosmicMusic (UpdateAudio c m I) = CosmicMusic c"
  "OracleMusic (UpdateAudio c m I) = OracleMusic c"
  "CurrentMotif (UpdateAudio c m I) = CurrentMotif c"
  "CurrentIntensity (UpdateAudio c m I) = CurrentIntensity c"
  by (simp_all add: UpdateAudio_def Let_def OverlayRef_def split: option.split EMotif.split)

lemma Overlay_UpdateAudio: "Overlay (UpdateAudio c m I) k = Overlay c k"
  by (simp add: Overlay_def UpdateAudio_other)

lemma TargetMusic_UpdateVisualFX: "TargetMusic (UpdateVisualFX c m I) k = TargetMusic c k"
  by (simp add: TargetMusic_def UpdateVisualFX_other split: EMotif.split)

lemma TargetMusic_UpdateAudio: "TargetMusic (UpdateAudio c m I) k = TargetMusic c k"
  by (simp add: TargetMusic_def UpdateAudio_other split: EMotif.split)

lemma SetMotif_CurrentIntensity: "CurrentIntensity (SetMotif c m i) = Clamp i 0 1"
  by (simp add: SetMotif_def Let_def UpdateAudio_other UpdateVisualFX_other)

lemma SetMotif_CurrentMotif: "CurrentMotif (SetMotif c m i) = m"
  by (simp add: SetMotif_def Let_def UpdateAudio_other UpdateVisualFX_other)

lemma SetMotif_Overlay_eq:
  "Overlay (SetMotif c m i) k = Overlay (UpdateVisualFX c m (Clamp i 0 1)) k"
proof -
  have "UpdateVisualFX (c\<lparr>CurrentMotif := m, CurrentIntensity := Clamp i 0 1\<rparr>) m (Clamp i 0 1)
          = (UpdateVisualFX c m (Clamp i 0 1))\<lparr>CurrentMotif := m, CurrentIntensity := Clamp i 0 1\<rparr>"
    by (simp add: UpdateVisualFX_def Let_def)
  then show ?thesis
    by (simp add: SetMotif_def Let_def Overlay_UpdateAudio)
      (simp add: Overlay_def OverlayRef_def split: EMotif.split)
qed

lemma SetMotif_TargetMusic: "TargetMusic (SetMotif c m i) k = TargetMusic c k"
  by (simp add: SetMotif_def Let_def TargetMusic_UpdateAudio TargetMusic_UpdateVisualFX)
    (simp add: TargetMusic_def split: EMotif.split)

lemma UpdateAudio_MusicBus:
  "MusicBus (UpdateAudio c m I) = map_option (BusAfter (TargetMusic c m) I) (MusicBus c)"
  by (auto simp: UpdateAudio_def Let_def BusAfter_def SetSound_def Play_def
      SetPitchMultiplier_def SetVolumeMultiplier_def split: option.split)

lemma SetMotif_MusicBus:
  "MusicBus (SetMotif c m i) = map_option (BusAfter (TargetMusic c m) (Clamp i 0 1)) (MusicBus c)"
proof -
  have "TargetMusic (c\<lparr>CurrentMotif := m, CurrentIntensity := Clamp i 0 1\<rparr>) m = TargetMusic c m"
    by (simp add: TargetMusic_def split: EMotif.split)
  then show ?thesis
    by (simp add: SetMotif_def Let_def UpdateAudio_MusicBus UpdateVisualFX_other
        TargetMusic_UpdateVisualFX)
qed

lemma OverlayRef_Wired:
  "OverlayRef WiredMotifComponent Storm = Some 0" "OverlayRef WiredMotifComponent Calm = Some 1"
  "OverlayRef WiredMotifComponent Cosmic = Some 2" "OverlayRef WiredMotifComponent Oracle = Some 3"
  by (simp_all add: OverlayRef_def WiredMotifComponent_def)

lemma Overlay_Wired: "Overlay WiredMotifComponent k = Some IdleNiagara"
  by (cases k) (simp_all add: Overlay_def OverlayRef_def WiredMotifComponent_def)

lemma Unshared_Wired: "Unshared WiredMotifComponent k"
  by (cases k) (simp_all add: Unshared_def OverlayRef_Wired)

lemma Overlay_New: "Overlay NewMotifComponent k = None"
  by (simp add: Overlay_def OverlayRef_def NewMotifComponent_def split: EMotif.split)

lemma IsActive_UpdateVisualFX:
  "Unshared c k \<Longrightarrow> IsActive (UpdateVisualFX c m I) k = (Overlay c k \<noteq> None \<and> m = k)"
  by (auto simp: IsActive_def UpdateVisualFX_Overlay WithOverlay_def split: option.split)

lemma EmissionRate_UpdateVisualFX:
  "Unshared c k \<Longrightarrow>
     EmissionRate (UpdateVisualFX c m I) k =
       (if Overlay c k = None then None else Some (Lerp 10 200 I * KindMultiplier k))"
  by (auto simp: EmissionRate_def UpdateVisualFX_Overlay WithOverlay_def split: option.split)

lemma IsActive_SetMotif:
  "Unshared c k \<Longrightarrow> IsActive (SetMotif c m i) k = (Overlay c k \<noteq> None \<and> m = k)"
  using IsActive_UpdateVisualFX [of c k m "Clamp i 0 1"]
  by (simp add: IsActive_def SetMotif_Overlay_eq)

lemma EmissionRate_SetMotif:
  "Unshared c k \<Longrightarrow>
     EmissionRate (SetMotif c m i) k =
       (if Overlay c k = None then None else Some (Lerp 10 200 (Clamp i 0 1) * KindMultiplier k))"
  using EmissionRate_UpdateVisualFX [of c k m "Clamp i 0 1"]
  by (simp add: EmissionRate_def SetMotif_Overlay_eq)

lemma Calm_rate_last_write:
  assumes "CalmFog c \<noteq> None" and "CosmicAurora c \<noteq> CalmFog c" and "OracleRunes c \<noteq> CalmFog c"
  shows "EmissionRate (UpdateVisualFX c m I) Calm = Some (BaseRate I * (5 / 10))"
  using assms
  by (auto simp: EmissionRate_def Overlay_def OverlayRef_def UpdateVisualFX_def Let_def
      SetActiveIfPresent_def SetNiagaraFloatParameter_def SetActive_def SetFloatParameter_def
      split: option.split)

lemma ActiveKinds_all_attached:
  assumes "\<And>k. IsActive c' k = (m = k)"
  shows "ActiveKinds c' = [m]"
  by (cases m) (simp_all add: ActiveKinds_def assms)

lemma distinct_overlays_Unshared:
  assumes "StormRain c \<noteq> None" "CalmFog c \<noteq> None" "CosmicAurora c \<noteq> None" "OracleRunes c \<noteq> None"
    and "distinct [StormRain c, CalmFog c, CosmicAurora c, OracleRunes c]"
  shows "Unshared c k \<and> Overlay c k \<noteq> None"
  using assms by (cases k) (auto simp: Unshared_def OverlayRef_def Overlay_def)

text \<open>
  When two members point to the same object the later write wins: with the Storm and the
  Calm member on one object, selecting Storm leaves no overlay active, and the shared
  object ends with the Calm rate.
\<close>

lemma shared_overlay_last_write_wins:
  "ActiveKinds (UpdateVisualFX SharedMotifComponent Storm (1 / 2)) = []
   \<and> EmissionRate (UpdateVisualFX SharedMotifComponent Storm (1 / 2)) Storm = Some (105 / 2)"
  by (simp add: ActiveKinds_def IsActive_def EmissionRate_def Overlay_def OverlayRef_def
      UpdateVisualFX_def Let_def SharedMotifComponent_def WiredMotifComponent_def
      SetActiveIfPresent_def SetNiagaraFloatParameter_def SetActive_def SetFloatParameter_def
      BaseRate_def Lerp_def IdleNiagara_def)


lemma Float32ExponentFrom_eq:
  "2 powi k \<le> x \<Longrightarrow> x < 2 powi (k + 1) \<Longrightarrow> k \<le> e \<Longrightarrow> e - int n \<le> k \<Longrightarrow>
     Float32ExponentFrom n e x = k"
proof (induction n arbitrary: e)
  case 0
  then show ?case by simp
next
  case (Suc n)
  show ?case
  proof (cases "2 powi e \<le> x")
    case True
    with Suc.prems(2) have "(2::real) powi e < 2 powi (k + 1)" by simp
    moreover have "(2::real) powi (k + 1) \<le> 2 powi e" if "k + 1 \<le> e"
      using that by (intro power_int_increasing) simp_all
    ultimately have "e < k + 1" by fastforce
    with Suc.prems(3) True show ?thesis by simp
  next
    case False
    with Suc.prems(1) have "e \<noteq> k" by auto
    with Suc.prems(3) have "k \<le> e - 1" by simp
    moreover from Suc.prems(4) have "e - 1 - int n \<le> k" by simp
    ultimately have "Float32ExponentFrom n (e - 1) x = k"
      using Suc.IH Suc.prems(1,2) by blast
    with False show ?thesis by simp
  qed
qed

lemma Float32Round_normal:
  assumes "2 powi k \<le> \<bar>x\<bar>" and "\<bar>x\<bar> < 2 powi (k + 1)" and "- 126 \<le> k" and "k \<le> 127"
  shows "Float32Round x = of_int (RoundEven (x / 2 powi (k - 23))) * 2 powi (k - 23)"
proof -
  have "Float32ExponentFrom 253 127 \<bar>x\<bar> = k"
    using assms by (intro Float32ExponentFrom_eq) simp_all
  then show ?thesis
    by (simp add: Float32Round_def Float32Exponent_def)
qed

lemma Float32Round_zero: "Float32Round 0 = 0"
  by (simp add: Float32Round_def RoundEven_def)

lemma Float32Round_literals:
  "Float32Round (45 / 100) = 7549747 / 16777216"
  "Float32Round (35 / 100) = 11744051 / 33554432"
  "Float32Round (15 / 100) = 5033165 / 33554432"
  "Float32Round (5 / 100) = 13421773 / 268435456"
  "Float32Round (2 / 10) = 13421773 / 67108864"
  "Float32Round (4 / 10) = 13421773 / 33554432"
  "Float32Round (6 / 10) = 5033165 / 8388608"
  "Float32Round (1 / 10) = 13421773 / 134217728"
  "Float32Round 220 = 220"
  "Float32Round 10 = 10"
proof -
  show "Float32Round (45 / 100) = 7549747 / 16777216"
    by (simp add: Float32Round_normal [where k = "- 2"] RoundEven_def power_int_minus)
  show "Float32Round (35 / 100) = 11744051 / 33554432"
    by (simp add: Float32Round_normal [where k = "- 2"] RoundEven_def power_int_minus)
  show "Float32Round (15 / 100) = 5033165 / 33554432"
    by (simp add: Float32Round_normal [where k = "- 3"] RoundEven_def power_int_minus)
  show "Float32Round (5 / 100) = 13421773 / 268435456"
    by (simp add: Float32Round_normal [where k = "- 5"] RoundEven_def power_int_minus)
  show "Float32Round (2 / 10) = 13421773 / 67108864"
    by (simp add: Float32Round_normal [where k = "- 3"] RoundEven_def power_int_minus)
  show "Float32Round (4 / 10) = 13421773 / 33554432"
    by (simp add: Float32Round_normal [where k = "- 2"] RoundEven_def power_int_minus)
  show "Float32Round (6 / 10) = 5033165 / 8388608"
    by (simp add: Float32Round_normal [where k = "- 1"] RoundEven_def power_int_minus)
  show "Float32Round (1 / 10) = 13421773 / 134217728"
    by (simp add: Float32Round_normal [where k = "- 4"] RoundEven_def power_int_minus)
  show "Float32Round 220 = 220"
    by (simp add: Float32Round_normal [where k = 7] RoundEven_def power_int_minus)
  show "Float32Round 10 = 10"
    by (simp add: Float32Round_normal [where k = 3] RoundEven_def power_int_minus)
qed

lemma example_float_terms:
  assumes "Distance SelfPos RivalLocation = 10"
  shows "RivalProxFloat (Some RivalLocation) SelfPos = 13421773 / 134217728"
    and "PoliceProxFloat ZeroVector SelfPos = 0"
    and "SpeedRiskFloat DefaultServiceFloat 110 = 1 / 2"
    and "DamageRisk (Float32Round (2 / 10)) = 13421773 / 67108864"
proof -
  show "RivalProxFloat (Some RivalLocation) SelfPos = 13421773 / 134217728"
    using assms Float32Round_literals(8)
    by (simp add: RivalProxFloat_def Float32Round_literals(10) Max_def Float32Div_def)
  show "PoliceProxFloat ZeroVector SelfPos = 0"
    by (simp add: PoliceProxFloat_def IsZero_ZeroVector)
  have "Float32Round (1 / 2) = 1 / 2"
    by (simp add: Float32Round_normal [where k = "- 1"] RoundEven_def power_int_minus)
  then show "SpeedRiskFloat DefaultServiceFloat 110 = 1 / 2"
    by (simp add: SpeedRiskFloat_def DefaultServiceFloat_def Float32Round_literals(9)
        Float32Div_def Clamp_def)
  show "DamageRisk (Float32Round (2 / 10)) = 13421773 / 67108864"
    using Float32Round_literals(5) by (simp add: DamageRisk_def Clamp_def)
qed

lemma example_float_threat:
  assumes "Distance SelfPos RivalLocation = 10"
  shows "CalculateThreatFloat DefaultServiceFloat (Some RivalLocation) ZeroVector 110
           (Float32Round (2 / 10)) SelfPos = 8724153 / 67108864"
proof -
  note terms = example_float_terms [OF assms]
  have w: "RivalWeight DefaultServiceFloat = 7549747 / 16777216"
    "PoliceWeight DefaultServiceFloat = 11744051 / 33554432"
    "SpeedWeight DefaultServiceFloat = 5033165 / 33554432"
    "DamageWeight DefaultServiceFloat = 13421773 / 268435456"
    using Float32Round_literals(1-4) by (simp_all add: DefaultServiceFloat_def)
  have p1: "Float32Mul (7549747 / 16777216) (13421773 / 134217728) = 12079595 / 268435456"
    by (simp add: Float32Mul_def Float32Round_normal [where k = "- 5"] RoundEven_def
        power_int_minus)
  have p2: "Float32Mul (11744051 / 33554432) 0 = 0"
    by (simp add: Float32Mul_def Float32Round_zero)
  have s1: "Float32Add (12079595 / 268435456) 0 = 12079595 / 268435456"
    by (simp add: Float32Add_def Float32Round_normal [where k = "- 5"] RoundEven_def
        power_int_minus)
  have p3: "Float32Mul (5033165 / 33554432) (1 / 2) = 5033165 / 67108864"
    by (simp add: Float32Mul_def Float32Round_normal [where k = "- 4"] RoundEven_def
        power_int_minus)
  have s2: "Float32Add (12079595 / 268435456) (5033165 / 67108864) = 1006633 / 8388608"
    by (simp add: Float32Add_def Float32Round_normal [where k = "- 4"] RoundEven_def
        power_int_minus)
  have p4: "Float32Mul (13421773 / 268435456) (13421773 / 67108864) = 10737419 / 1073741824"
    by (simp add: Float32Mul_def Float32Round_normal [where k = "- 7"] RoundEven_def
        power_int_minus)
  have s3: "Float32Add (1006633 / 8388608) (10737419 / 1073741824) = 8724153 / 67108864"
    by (simp add: Float32Add_def Float32Round_normal [where k = "- 3"] RoundEven_def
        power_int_minus)
  have c: "Clamp (8724153 / 67108864) 0 1 = 8724153 / 67108864"
    by (simp add: Clamp_def)
  show ?thesis
    unfolding CalculateThreatFloat_def Let_def terms w p1 p2 s1 p3 s2 p4 s3 c ..
qed

lemma example_float_motif:
  "MotifIntensityOfFloat (8724153 / 67108864) = 16039019 / 33554432"
proof -
  have m1: "Float32Mul (8724153 / 67108864) (5033165 / 8388608) = 1308623 / 16777216"
    by (simp add: Float32Mul_def Float32Round_normal [where k = "- 4"] RoundEven_def
        power_int_minus)
  have m2: "Float32Add (13421773 / 33554432) (1308623 / 16777216) = 16039019 / 33554432"
    by (simp add: Float32Add_def Float32Round_normal [where k = "- 2"] RoundEven_def
        power_int_minus)
  have c: "Clamp (16039019 / 33554432) 0 1 = 16039019 / 33554432"
    by (simp add: Clamp_def)
  show ?thesis
    unfolding MotifIntensityOfFloat_def Float32Round_literals(6,7) m1 m2 c ..
qed


section \<open>Properties of the threat service\<close>

subsection \<open>Bounds\<close>

text \<open>
  Claim C1. For every service configuration with a positive maximum speed and every
  input (any own position, rival present or not, any pursuer position, any speed, any
  damage), the threat level returned by \<^verbatim>\<open>CalculateThreat\<close> lies between 0 and 1, and so
  does the motif intensity derived from it; a tick that reaches the blackboard writes a
  threat level and a motif intensity in that range.
\<close>

theorem threat_and_motif_in_unit_interval:
  assumes "0 < MaxSpeedKmh svc"
  shows "0 \<le> CalculateThreat svc Rival PolicePos Speed Damage SelfPos
       \<and> CalculateThreat svc Rival PolicePos Speed Damage SelfPos \<le> 1
       \<and> 0 \<le> MotifIntensityOf (CalculateThreat svc Rival PolicePos Speed Damage SelfPos)
       \<and> MotifIntensityOf (CalculateThreat svc Rival PolicePos Speed Damage SelfPos) \<le> 1
       \<and> (Produces oc \<longrightarrow>
            (\<exists>bb'. BlackboardComponent (TickNode svc oc) = Some bb'
               \<and> 0 \<le> ThreatLevelValue bb' \<and> ThreatLevelValue bb' \<le> 1
               \<and> 0 \<le> MotifIntensityValue bb' \<and> MotifIntensityValue bb' \<le> 1))"
proof -
  have mi: "0 \<le> MotifIntensityOf t \<and> MotifIntensityOf t \<le> 1" for t
    by (simp add: MotifIntensityOf_def Clamp_unit_bounds)
  have tick: "\<exists>bb'. BlackboardComponent (TickNode svc oc) = Some bb'
               \<and> 0 \<le> ThreatLevelValue bb' \<and> ThreatLevelValue bb' \<le> 1
               \<and> 0 \<le> MotifIntensityValue bb' \<and> MotifIntensityValue bb' \<le> 1"
    if "Produces oc"
  proof -
    from that obtain bb ctl p where
      h: "BlackboardComponent oc = Some bb" "AIOwner oc = Some ctl" "Pawn ctl = Some p"
      by (auto simp: Produces_cases)
    show ?thesis
      by (simp add: TickNode_produces [OF h] CalculateThreat_bounds mi)
  qed
  show ?thesis
    using tick by (simp add: CalculateThreat_bounds mi)
qed

theorem threat_and_motif_in_unit_interval_witness:
  "0 < MaxSpeedKmh DefaultService \<and> Produces ExampleOwnerComp
   \<and> 0 \<le> CalculateThreat DefaultService (Some ExampleRival) ZeroVector 110 (2 / 10) ZeroVector
   \<and> CalculateThreat DefaultService (Some ExampleRival) ZeroVector 110 (2 / 10) ZeroVector \<le> 1
   \<and> (\<exists>bb'. BlackboardComponent (TickNode DefaultService ExampleOwnerComp) = Some bb'
          \<and> 0 \<le> ThreatLevelValue bb' \<and> ThreatLevelValue bb' \<le> 1
          \<and> 0 \<le> MotifIntensityValue bb' \<and> MotifIntensityValue bb' \<le> 1)"
  using threat_and_motif_in_unit_interval [OF DefaultService_MaxSpeed,
      of "Some ExampleRival" ZeroVector 110 "2 / 10" ZeroVector ExampleOwnerComp]
    ExampleOwnerComp_Produces DefaultService_MaxSpeed
  by simp

subsection \<open>The motif intensity is a function of the threat level\<close>

text \<open>
  Claim C2. Whenever a tick produces a result, the motif intensity it writes equals
  \<open>Clamp (0.4 + 0.6 * threat) 0 1\<close> for the threat level written by that same tick, and
  the result does not depend on the motif intensity that was on the blackboard before:
  the motif intensity is not an input.
\<close>

theorem motif_intensity_derived_from_threat:
  assumes "Produces oc"
  shows "\<exists>bb'. BlackboardComponent (TickNode svc oc) = Some bb'
           \<and> MotifIntensityValue bb' = Clamp (4 / 10 + 6 / 10 * ThreatLevelValue bb') 0 1
           \<and> (\<forall>bb x. BlackboardComponent oc = Some bb \<longrightarrow>
                 TickNode svc (oc\<lparr>BlackboardComponent := Some (bb\<lparr>MotifIntensityValue := x\<rparr>)\<rparr>)
                   = TickNode svc oc)"
proof -
  from assms obtain bb ctl p where
    h: "BlackboardComponent oc = Some bb" "AIOwner oc = Some ctl" "Pawn ctl = Some p"
    by (auto simp: Produces_cases)
  have "TickNode svc (oc\<lparr>BlackboardComponent := Some (bb\<lparr>MotifIntensityValue := x\<rparr>)\<rparr>)
          = TickNode svc oc" for x
    using h by (simp add: TickNode_def Let_def)
  then show ?thesis
    using h by (simp add: TickNode_produces [OF h] MotifIntensityOf_def mult.commute)
qed

theorem motif_intensity_derived_from_threat_witness:
  "Produces ExampleOwnerComp
   \<and> (\<exists>bb'. BlackboardComponent (TickNode DefaultService ExampleOwnerComp) = Some bb'
          \<and> MotifIntensityValue bb' = Clamp (4 / 10 + 6 / 10 * ThreatLevelValue bb') 0 1)"
  using motif_intensity_derived_from_threat [OF ExampleOwnerComp_Produces, of DefaultService]
    ExampleOwnerComp_Produces
  by blast

subsection \<open>The worked example\<close>

text \<open>
  Claim C3, as stated with exact values, fails: the code computes in single precision,
  where 0.45, 0.1, 0.13 and 0.478 have no representation. With the header's weights, the
  rival ten units away, no pursuer, speed 110 and damage 0.2f, the threat level it
  returns is \<open>8724153 / 2 ^ 26\<close> (\<^verbatim>\<open>0x1.0a3d72p-3\<close>, about 0.13000001) and the motif
  intensity \<open>16039019 / 2 ^ 25\<close> (\<^verbatim>\<open>0x1.e978d6p-2\<close>, about 0.47800002): neither is
  0.13 or 0.478.
\<close>

theorem single_precision_example_counterexample:
  "CalculateThreatFloat DefaultServiceFloat (Some ExampleRival) ZeroVector 110
     (Float32Round (2 / 10)) ZeroVector = 8724153 / 2 ^ 26
   \<and> CalculateThreatFloat DefaultServiceFloat (Some ExampleRival) ZeroVector 110
       (Float32Round (2 / 10)) ZeroVector \<noteq> 13 / 100
   \<and> MotifIntensityOfFloat
       (CalculateThreatFloat DefaultServiceFloat (Some ExampleRival) ZeroVector 110
          (Float32Round (2 / 10)) ZeroVector) = 16039019 / 2 ^ 25
   \<and> MotifIntensityOfFloat
       (CalculateThreatFloat DefaultServiceFloat (Some ExampleRival) ZeroVector 110
          (Float32Round (2 / 10)) ZeroVector) \<noteq> 478 / 1000"
  unfolding example_float_threat [OF Distance_Example] example_float_motif
  by simp

text \<open>
  Claim C3, amended. With the default weights (0.45, 0.35, 0.15, 0.05) and maximum speed
  220, a rival ten units away, no pursuer, speed 110 and damage 0.2: in exact arithmetic
  the formula gives rival proximity 0.1, pursuer proximity 0, speed risk 0.5, damage
  risk 0.2, threat level 0.13 and motif intensity 0.478; the single-precision code
  gives the binary32 neighbours of 0.1 and 0.2 for the rival proximity and the damage
  risk, exactly 0 and 0.5 for the other two, the threat level \<open>8724153 / 2 ^ 26\<close> and the
  motif intensity \<open>16039019 / 2 ^ 25\<close>, each less than \<open>1 / 10 ^ 7\<close> away from 0.13 and
  0.478.
\<close>

theorem worked_example:
  assumes "Distance SelfPos RivalLocation = 10"
  shows "RivalProx (Some RivalLocation) SelfPos = 1 / 10
       \<and> PoliceProx ZeroVector SelfPos = 0
       \<and> SpeedRisk DefaultService 110 = 5 / 10
       \<and> DamageRisk (2 / 10) = 2 / 10
       \<and> CalculateThreat DefaultService (Some RivalLocation) ZeroVector 110 (2 / 10) SelfPos
           = 13 / 100
       \<and> MotifIntensityOf
           (CalculateThreat DefaultService (Some RivalLocation) ZeroVector 110 (2 / 10) SelfPos)
           = 478 / 1000
       \<and> RivalProxFloat (Some RivalLocation) SelfPos = Float32Round (1 / 10)
       \<and> PoliceProxFloat ZeroVector SelfPos = 0
       \<and> SpeedRiskFloat DefaultServiceFloat 110 = 5 / 10
       \<and> DamageRisk (Float32Round (2 / 10)) = Float32Round (2 / 10)
       \<and> CalculateThreatFloat DefaultServiceFloat (Some RivalLocation) ZeroVector 110
           (Float32Round (2 / 10)) SelfPos = 8724153 / 2 ^ 26
       \<and> \<bar>CalculateThreatFloat DefaultServiceFloat (Some RivalLocation) ZeroVector 110
           (Float32Round (2 / 10)) SelfPos - 13 / 100\<bar> < 1 / 10 ^ 7
       \<and> MotifIntensityOfFloat
           (CalculateThreatFloat DefaultServiceFloat (Some RivalLocation) ZeroVector 110
              (Float32Round (2 / 10)) SelfPos) = 16039019 / 2 ^ 25
       \<and> \<bar>MotifIntensityOfFloat
           (CalculateThreatFloat DefaultServiceFloat (Some RivalLocation) ZeroVector 110
              (Float32Round (2 / 10)) SelfPos) - 478 / 1000\<bar> < 1 / 10 ^ 7"
proof -
  have r: "RivalProx (Some RivalLocation) SelfPos = 1 / 10"
    using assms by (simp add: RivalProx_def Max_def)
  have p: "PoliceProx ZeroVector SelfPos = 0"
    by (simp add: PoliceProx_def IsZero_ZeroVector)
  have s: "SpeedRisk DefaultService 110 = 5 / 10"
    by (simp add: SpeedRisk_def DefaultService_def Clamp_def)
  have d: "DamageRisk (2 / 10) = 2 / 10"
    by (simp add: DamageRisk_def Clamp_def)
  have t: "CalculateThreat DefaultService (Some RivalLocation) ZeroVector 110 (2 / 10) SelfPos
             = 13 / 100"
    by (simp add: CalculateThreat_def Let_def r p SpeedRisk_def DamageRisk_def
        DefaultService_def Clamp_def)
  have m: "MotifIntensityOf (13 / 100) = 478 / 1000"
    by (simp add: MotifIntensityOf_def Clamp_def)
  note ft = example_float_terms [OF assms]
  have fr: "RivalProxFloat (Some RivalLocation) SelfPos = Float32Round (1 / 10)"
    using ft(1) Float32Round_literals(8) by simp
  have fs: "SpeedRiskFloat DefaultServiceFloat 110 = 5 / 10"
    using ft(3) by simp
  have fd: "DamageRisk (Float32Round (2 / 10)) = Float32Round (2 / 10)"
    using ft(4) Float32Round_literals(5) by simp
  have real_part: "RivalProx (Some RivalLocation) SelfPos = 1 / 10
       \<and> PoliceProx ZeroVector SelfPos = 0
       \<and> SpeedRisk DefaultService 110 = 5 / 10
       \<and> DamageRisk (2 / 10) = 2 / 10
       \<and> CalculateThreat DefaultService (Some RivalLocation) ZeroVector 110 (2 / 10) SelfPos
           = 13 / 100
       \<and> MotifIntensityOf
           (CalculateThreat DefaultService (Some RivalLocation) ZeroVector 110 (2 / 10) SelfPos)
           = 478 / 1000"
    unfolding t using r p s d m by simp
  have float_part: "CalculateThreatFloat DefaultServiceFloat (Some RivalLocation) ZeroVector 110
           (Float32Round (2 / 10)) SelfPos = 8724153 / 2 ^ 26
       \<and> \<bar>CalculateThreatFloat DefaultServiceFloat (Some RivalLocation) ZeroVector 110
           (Float32Round (2 / 10)) SelfPos - 13 / 100\<bar> < 1 / 10 ^ 7
       \<and> MotifIntensityOfFloat
           (CalculateThreatFloat DefaultServiceFloat (Some RivalLocation) ZeroVector 110
              (Float32Round (2 / 10)) SelfPos) = 16039019 / 2 ^ 25
       \<and> \<bar>MotifIntensityOfFloat
           (CalculateThreatFloat DefaultServiceFloat (Some RivalLocation) ZeroVector 110
              (Float32Round (2 / 10)) SelfPos) - 478 / 1000\<bar> < 1 / 10 ^ 7"
    unfolding example_float_threat [OF assms] example_float_motif
    by simp
  show ?thesis
    using real_part fr ft(2) fs fd float_part by blast
qed

theorem worked_example_witness:
  "Distance ZeroVector ExampleRival = 10
   \<and> CalculateThreat DefaultService (Some ExampleRival) ZeroVector 110 (2 / 10) ZeroVector
       = 13 / 100
   \<and> CalculateThreatFloat DefaultServiceFloat (Some ExampleRival) ZeroVector 110
       (Float32Round (2 / 10)) ZeroVector = 8724153 / 2 ^ 26
   \<and> \<bar>MotifIntensityOfFloat
       (CalculateThreatFloat DefaultServiceFloat (Some ExampleRival) ZeroVector 110
          (Float32Round (2 / 10)) ZeroVector) - 478 / 1000\<bar> < 1 / 10 ^ 7"
  using worked_example [OF Distance_Example] Distance_Example by blast

subsection \<open>Monotonicity\<close>

text \<open>
  Claim C4, as stated for every weight configuration, fails: a negative weight turns the
  direction around. With the damage weight \<open>- 1\<close> and the speed weight 1, at full speed
  with nobody near, raising the damage from 0 to 1 lowers the threat from 1 to 0.
\<close>

theorem threat_monotone_counterexample:
  "(0::real) \<le> 1
   \<and> CalculateThreat NegativeDamageService None ZeroVector 220 1 ZeroVector = 0
   \<and> CalculateThreat NegativeDamageService None ZeroVector 220 0 ZeroVector = 1
   \<and> \<not> CalculateThreat NegativeDamageService None ZeroVector 220 0 ZeroVector
         \<le> CalculateThreat NegativeDamageService None ZeroVector 220 1 ZeroVector"
  by (simp add: CalculateThreat_def Let_def RivalProx_def PoliceProx_def IsZero_ZeroVector
      SpeedRisk_def DamageRisk_def NegativeDamageService_def Clamp_def)

text \<open>
  Claim C4, amended. For a configuration with non-negative weights and a positive
  maximum speed, all other inputs fixed: a rival that is nearer gives a threat level at
  least as high; so does a pursuer that is nearer, both pursuer positions being present
  (not the zero vector); so does a higher speed; so does a higher damage.
\<close>

theorem threat_monotone_for_nonnegative_weights:
  assumes "0 < MaxSpeedKmh svc"
    and "0 \<le> RivalWeight svc" and "0 \<le> PoliceWeight svc"
    and "0 \<le> SpeedWeight svc" and "0 \<le> DamageWeight svc"
  shows "(Distance SelfPos Rival' \<le> Distance SelfPos Rival \<longrightarrow>
            CalculateThreat svc (Some Rival) PolicePos Speed Damage SelfPos
              \<le> CalculateThreat svc (Some Rival') PolicePos Speed Damage SelfPos)
       \<and> (\<not> IsZero PolicePos \<and> \<not> IsZero PolicePos'
            \<and> Distance SelfPos PolicePos' \<le> Distance SelfPos PolicePos \<longrightarrow>
            CalculateThreat svc R PolicePos Speed Damage SelfPos
              \<le> CalculateThreat svc R PolicePos' Speed Damage SelfPos)
       \<and> (Speed \<le> Speed' \<longrightarrow>
            CalculateThreat svc R PolicePos Speed Damage SelfPos
              \<le> CalculateThreat svc R PolicePos Speed' Damage SelfPos)
       \<and> (Damage \<le> Damage' \<longrightarrow>
            CalculateThreat svc R PolicePos Speed Damage SelfPos
              \<le> CalculateThreat svc R PolicePos Speed Damage' SelfPos)"
proof (intro conjI impI)
  assume "Distance SelfPos Rival' \<le> Distance SelfPos Rival"
  then have "RivalProx (Some Rival) SelfPos \<le> RivalProx (Some Rival') SelfPos"
    by (simp add: RivalProx_def inv_Max_antimono)
  then have "RivalWeight svc * RivalProx (Some Rival) SelfPos
               \<le> RivalWeight svc * RivalProx (Some Rival') SelfPos"
    using assms(2) by (rule mult_left_mono)
  then show "CalculateThreat svc (Some Rival) PolicePos Speed Damage SelfPos
               \<le> CalculateThreat svc (Some Rival') PolicePos Speed Damage SelfPos"
    unfolding CalculateThreat_def Let_def by (intro Clamp_mono) simp
next
  assume "\<not> IsZero PolicePos \<and> \<not> IsZero PolicePos'
            \<and> Distance SelfPos PolicePos' \<le> Distance SelfPos PolicePos"
  then have "PoliceProx PolicePos SelfPos \<le> PoliceProx PolicePos' SelfPos"
    by (simp add: PoliceProx_def inv_Max_antimono)
  then have "PoliceWeight svc * PoliceProx PolicePos SelfPos
               \<le> PoliceWeight svc * PoliceProx PolicePos' SelfPos"
    using assms(3) by (rule mult_left_mono)
  then show "CalculateThreat svc R PolicePos Speed Damage SelfPos
               \<le> CalculateThreat svc R PolicePos' Speed Damage SelfPos"
    unfolding CalculateThreat_def Let_def by (intro Clamp_mono) simp
next
  assume "Speed \<le> Speed'"
  then have "Speed / MaxSpeedKmh svc \<le> Speed' / MaxSpeedKmh svc"
    using assms(1) by (simp add: divide_right_mono)
  then have "SpeedRisk svc Speed \<le> SpeedRisk svc Speed'"
    unfolding SpeedRisk_def by (rule Clamp_mono)
  then have "SpeedWeight svc * SpeedRisk svc Speed \<le> SpeedWeight svc * SpeedRisk svc Speed'"
    using assms(4) by (rule mult_left_mono)
  then show "CalculateThreat svc R PolicePos Speed Damage SelfPos
               \<le> CalculateThreat svc R PolicePos Speed' Damage SelfPos"
    unfolding CalculateThreat_def Let_def by (intro Clamp_mono) simp
next
  assume "Damage \<le> Damage'"
  then have "DamageRisk Damage \<le> DamageRisk Damage'"
    unfolding DamageRisk_def by (rule Clamp_mono)
  then have "DamageWeight svc * DamageRisk Damage \<le> DamageWeight svc * DamageRisk Damage'"
    using assms(5) by (rule mult_left_mono)
  then show "CalculateThreat svc R PolicePos Speed Damage SelfPos
               \<le> CalculateThreat svc R PolicePos Speed Damage' SelfPos"
    unfolding CalculateThreat_def Let_def by (intro Clamp_mono) simp
qed

theorem threat_monotone_for_nonnegative_weights_witness:
  "0 < MaxSpeedKmh DefaultService
   \<and> 0 \<le> RivalWeight DefaultService \<and> 0 \<le> PoliceWeight DefaultService
   \<and> 0 \<le> SpeedWeight DefaultService \<and> 0 \<le> DamageWeight DefaultService
   \<and> Distance ZeroVector ZeroVector \<le> Distance ZeroVector ExampleRival
   \<and> CalculateThreat DefaultService (Some ExampleRival) ExampleRival 110 (2 / 10) ZeroVector
       \<le> CalculateThreat DefaultService (Some ZeroVector) ExampleRival 110 (2 / 10) ZeroVector
   \<and> \<not> IsZero ExampleRival \<and> \<not> IsZero \<lparr>X = 1, Y = 0, Z = 0\<rparr>
   \<and> Distance ZeroVector \<lparr>X = 1, Y = 0, Z = 0\<rparr> \<le> Distance ZeroVector ExampleRival
   \<and> CalculateThreat DefaultService None ExampleRival 110 (2 / 10) ZeroVector
       \<le> CalculateThreat DefaultService None \<lparr>X = 1, Y = 0, Z = 0\<rparr> 110 (2 / 10) ZeroVector
   \<and> (110::real) \<le> 220
   \<and> CalculateThreat DefaultService None ExampleRival 110 (2 / 10) ZeroVector
       \<le> CalculateThreat DefaultService None ExampleRival 220 (2 / 10) ZeroVector
   \<and> (2 / 10 :: real) \<le> 5 / 10
   \<and> CalculateThreat DefaultService None ExampleRival 110 (2 / 10) ZeroVector
       \<le> CalculateThreat DefaultService None ExampleRival 110 (5 / 10) ZeroVector"
proof -
  note mono = threat_monotone_for_nonnegative_weights
    [OF DefaultService_MaxSpeed DefaultService_weights_nonneg,
      where SelfPos = ZeroVector and Rival = ExampleRival and Rival' = ZeroVector
        and PolicePos = ExampleRival and PolicePos' = "\<lparr>X = 1, Y = 0, Z = 0\<rparr>"
        and Speed = 110 and Speed' = 220 and Damage = "2 / 10" and Damage' = "5 / 10"
        and R = None]
  have d1: "Distance ZeroVector ZeroVector \<le> Distance ZeroVector ExampleRival"
    by (simp add: Distance_Zero_Zero Distance_Example)
  have d2: "Distance ZeroVector \<lparr>X = 1, Y = 0, Z = 0\<rparr> \<le> Distance ZeroVector ExampleRival"
    by (simp add: Distance_Zero_UnitX Distance_Example)
  have s: "(110::real) \<le> 220" by simp
  have d: "(2 / 10 :: real) \<le> 5 / 10" by simp
  show ?thesis
    using mono d1 d2 s d not_IsZero_ExampleRival not_IsZero_UnitX DefaultService_MaxSpeed
      DefaultService_weights_nonneg
    by blast
qed

subsection \<open>Proximity scores\<close>

text \<open>
  Claim C5. The proximity score of a rival that is present, and of a pursuer position
  that is present (not the zero vector), is \<open>1 / max 1 d\<close> for their distance \<open>d\<close> from
  the own position; distances are never negative and the divisor is never below 1; at
  a distance of at most 1 the score is exactly 1, and no score exceeds 1.
\<close>

theorem proximity_score:
  "RivalProx (Some RivalLocation) SelfPos = 1 / max 1 (Distance SelfPos RivalLocation)
   \<and> (\<not> IsZero PolicePos \<longrightarrow>
         PoliceProx PolicePos SelfPos = 1 / max 1 (Distance SelfPos PolicePos))
   \<and> (Distance SelfPos RivalLocation \<le> 1 \<longrightarrow> RivalProx (Some RivalLocation) SelfPos = 1)
   \<and> (\<not> IsZero PolicePos \<and> Distance SelfPos PolicePos \<le> 1 \<longrightarrow>
         PoliceProx PolicePos SelfPos = 1)
   \<and> 0 \<le> Distance SelfPos RivalLocation
   \<and> 1 \<le> Max 1 (Distance SelfPos RivalLocation)
   \<and> RivalProx Rival SelfPos \<le> 1
   \<and> PoliceProx PolicePos SelfPos \<le> 1"
proof -
  have "RivalProx Rival SelfPos \<le> 1"
    using inv_Max_bounds by (simp add: RivalProx_def split: option.split)
  moreover have "PoliceProx PolicePos SelfPos \<le> 1"
    using inv_Max_bounds by (simp add: PoliceProx_def)
  ultimately show ?thesis
    by (simp add: RivalProx_def PoliceProx_def Max_eq_max Distance_nonneg max_def)
qed

theorem proximity_score_witness:
  "\<not> IsZero \<lparr>X = 1, Y = 0, Z = 0\<rparr>
   \<and> Distance ZeroVector \<lparr>X = 1, Y = 0, Z = 0\<rparr> \<le> 1
   \<and> RivalProx (Some \<lparr>X = 1, Y = 0, Z = 0\<rparr>) ZeroVector = 1
   \<and> PoliceProx \<lparr>X = 1, Y = 0, Z = 0\<rparr> ZeroVector = 1
   \<and> PoliceProx \<lparr>X = 1, Y = 0, Z = 0\<rparr> ZeroVector
       = 1 / max 1 (Distance ZeroVector \<lparr>X = 1, Y = 0, Z = 0\<rparr>)"
proof -
  have d: "Distance ZeroVector \<lparr>X = 1, Y = 0, Z = 0\<rparr> \<le> 1"
    by (simp add: Distance_Zero_UnitX)
  show ?thesis
    using proximity_score [of "\<lparr>X = 1, Y = 0, Z = 0\<rparr>" ZeroVector "\<lparr>X = 1, Y = 0, Z = 0\<rparr>" None]
      d not_IsZero_UnitX
    by blast
qed

text \<open>
  Claim C6. A null rival and a zero pursuer position each contribute a proximity of
  exactly 0: with neither present the threat level is
  \<open>Clamp (SpeedWeight * speedRisk + DamageWeight * damageRisk) 0 1\<close> for every speed and
  damage, where \<open>speedRisk = Clamp (Speed / MaxSpeedKmh) 0 1\<close> and
  \<open>damageRisk = Clamp Damage 0 1\<close>.
\<close>

theorem absent_positions_contribute_zero:
  assumes "IsZero PolicePos"
  shows "RivalProx None SelfPos = 0
       \<and> PoliceProx PolicePos SelfPos = 0
       \<and> CalculateThreat svc None PolicePos Speed Damage SelfPos
           = Clamp (SpeedWeight svc * SpeedRisk svc Speed
                    + DamageWeight svc * DamageRisk Damage) 0 1
       \<and> SpeedRisk svc Speed = Clamp (Speed / MaxSpeedKmh svc) 0 1
       \<and> DamageRisk Damage = Clamp Damage 0 1"
  using assms
  by (simp add: CalculateThreat_def Let_def RivalProx_def PoliceProx_def SpeedRisk_def
      DamageRisk_def)

theorem absent_positions_contribute_zero_witness:
  "IsZero ZeroVector
   \<and> RivalProx None ExampleRival = 0
   \<and> PoliceProx ZeroVector ExampleRival = 0
   \<and> CalculateThreat DefaultService None ZeroVector 110 (2 / 10) ExampleRival
       = Clamp (SpeedWeight DefaultService * SpeedRisk DefaultService 110
                + DamageWeight DefaultService * DamageRisk (2 / 10)) 0 1"
  using absent_positions_contribute_zero [OF IsZero_ZeroVector,
      of ExampleRival DefaultService 110 "2 / 10"]
    IsZero_ZeroVector
  by blast

subsection \<open>The floor of the motif intensity\<close>

text \<open>
  Claim C10. The motif intensity derived from a computed threat level is never below
  0.4 and never above 1: the threat level is already in the unit interval, so the clamp
  around \<open>0.4 + 0.6 * threat\<close> changes nothing.
\<close>

theorem motif_intensity_floor:
  "4 / 10 \<le> MotifIntensityOf (CalculateThreat svc Rival PolicePos Speed Damage SelfPos)
       \<and> MotifIntensityOf (CalculateThreat svc Rival PolicePos Speed Damage SelfPos) \<le> 1
       \<and> MotifIntensityOf (CalculateThreat svc Rival PolicePos Speed Damage SelfPos)
           = 4 / 10 + 6 / 10 * CalculateThreat svc Rival PolicePos Speed Damage SelfPos
       \<and> (Produces oc \<longrightarrow>
            (\<exists>bb'. BlackboardComponent (TickNode svc oc) = Some bb'
               \<and> 4 / 10 \<le> MotifIntensityValue bb' \<and> MotifIntensityValue bb' \<le> 1
               \<and> MotifIntensityValue bb' = 4 / 10 + 6 / 10 * ThreatLevelValue bb'))"
proof -
  have aff: "MotifIntensityOf (CalculateThreat svc R P v d s)
               = 4 / 10 + 6 / 10 * CalculateThreat svc R P v d s" for R P v d s
    using CalculateThreat_bounds [of svc R P v d s] by (simp add: MotifIntensityOf_affine)
  have lo: "4 / 10 \<le> MotifIntensityOf (CalculateThreat svc R P v d s)" for R P v d s
    using CalculateThreat_bounds [of svc R P v d s] by (simp add: aff)
  have hi: "MotifIntensityOf (CalculateThreat svc R P v d s) \<le> 1" for R P v d s
    using CalculateThreat_bounds [of svc R P v d s] by (simp add: aff)
  have tick: "\<exists>bb'. BlackboardComponent (TickNode svc oc) = Some bb'
               \<and> 4 / 10 \<le> MotifIntensityValue bb' \<and> MotifIntensityValue bb' \<le> 1
               \<and> MotifIntensityValue bb' = 4 / 10 + 6 / 10 * ThreatLevelValue bb'"
    if "Produces oc"
  proof -
    from that obtain bb ctl p where
      h: "BlackboardComponent oc = Some bb" "AIOwner oc = Some ctl" "Pawn ctl = Some p"
      by (auto simp: Produces_cases)
    show ?thesis
      using lo hi aff by (simp add: TickNode_produces [OF h])
  qed
  show ?thesis
    using tick lo hi aff by blast
qed

theorem motif_intensity_floor_witness:
  "Produces ExampleOwnerComp
   \<and> 4 / 10 \<le> MotifIntensityOf
        (CalculateThreat DefaultService (Some ExampleRival) ZeroVector 110 (2 / 10) ZeroVector)
   \<and> (\<exists>bb'. BlackboardComponent (TickNode DefaultService ExampleOwnerComp) = Some bb'
          \<and> 4 / 10 \<le> MotifIntensityValue bb' \<and> MotifIntensityValue bb' \<le> 1)"
  using motif_intensity_floor
      [of DefaultService "Some ExampleRival" ZeroVector 110 "2 / 10" ZeroVector ExampleOwnerComp]
    ExampleOwnerComp_Produces
  by blast





section \<open>Properties of the motif component\<close>

subsection \<open>The stored intensity\<close>

text \<open>
  Claim C7, as stated for every component, fails in its last part: the rate is handed to
  the Calm overlay only when the pointer is not null. On a freshly constructed
  component \<^verbatim>\<open>SetMotif(Calm, 1.3)\<close> stores the intensity 1, and no Calm emission rate
  results.
\<close>

theorem SetMotif_Calm_rate_counterexample:
  "CurrentIntensity (SetMotif NewMotifComponent Calm (13 / 10)) = 1
   \<and> EmissionRate (SetMotif NewMotifComponent Calm (13 / 10)) Calm = None"
  by (simp add: SetMotif_CurrentIntensity Clamp_def EmissionRate_def SetMotif_Overlay_eq
      UpdateVisualFX_Overlay_None Overlay_New)

text \<open>
  Claim C7, amended. \<^verbatim>\<open>SetMotif\<close> clamps its intensity argument to the unit interval
  before it stores it, whatever the component and the motif, so the stored intensity is
  always between 0 and 1. \<^verbatim>\<open>SetMotif(Calm, 1.3)\<close> stores exactly 1. When the Calm overlay
  is attached, and is not also the object of the Cosmic or the Oracle member (which are
  written after it), its emission rate afterwards is exactly 100; when it is null
  there is no Calm emission rate.
\<close>

theorem SetMotif_clamps_intensity:
  "CurrentIntensity (SetMotif c m i) = Clamp i 0 1
   \<and> 0 \<le> CurrentIntensity (SetMotif c m i) \<and> CurrentIntensity (SetMotif c m i) \<le> 1
   \<and> CurrentIntensity (SetMotif c Calm (13 / 10)) = 1
   \<and> (CalmFog c \<noteq> None \<and> CosmicAurora c \<noteq> CalmFog c \<and> OracleRunes c \<noteq> CalmFog c \<longrightarrow>
         EmissionRate (SetMotif c Calm (13 / 10)) Calm = Some 100)
   \<and> (CalmFog c = None \<longrightarrow> EmissionRate (SetMotif c Calm (13 / 10)) Calm = None)"
proof -
  have one: "Clamp (13 / 10) 0 1 = 1"
    by (simp add: Clamp_def)
  have rate: "BaseRate 1 * (5 / 10) = 100"
    by (simp add: BaseRate_def Lerp_def)
  have set: "EmissionRate (SetMotif c Calm (13 / 10)) Calm = Some 100"
    if "CalmFog c \<noteq> None \<and> CosmicAurora c \<noteq> CalmFog c \<and> OracleRunes c \<noteq> CalmFog c"
    using Calm_rate_last_write [of c Calm 1] that rate
    by (simp add: EmissionRate_def SetMotif_Overlay_eq one)
  have skip: "EmissionRate (SetMotif c Calm (13 / 10)) Calm = None" if "CalmFog c = None"
  proof -
    from that have "Overlay c Calm = None"
      by (simp add: Overlay_def OverlayRef_def)
    then show ?thesis
      by (simp add: EmissionRate_def SetMotif_Overlay_eq UpdateVisualFX_Overlay_None)
  qed
  show ?thesis
    using set skip by (simp add: SetMotif_CurrentIntensity Clamp_unit_bounds one)
qed

theorem SetMotif_clamps_intensity_witness:
  "CalmFog WiredMotifComponent \<noteq> None
   \<and> CosmicAurora WiredMotifComponent \<noteq> CalmFog WiredMotifComponent
   \<and> OracleRunes WiredMotifComponent \<noteq> CalmFog WiredMotifComponent
   \<and> CalmFog NewMotifComponent = None
   \<and> CurrentIntensity (SetMotif WiredMotifComponent Calm (13 / 10)) = 1
   \<and> EmissionRate (SetMotif WiredMotifComponent Calm (13 / 10)) Calm = Some 100
   \<and> EmissionRate (SetMotif NewMotifComponent Calm (13 / 10)) Calm = None"
proof -
  have h: "CalmFog WiredMotifComponent \<noteq> None
     \<and> CosmicAurora WiredMotifComponent \<noteq> CalmFog WiredMotifComponent
     \<and> OracleRunes WiredMotifComponent \<noteq> CalmFog WiredMotifComponent"
    by (simp add: WiredMotifComponent_def)
  have n: "CalmFog NewMotifComponent = None"
    by (simp add: NewMotifComponent_def)
  show ?thesis
    using SetMotif_clamps_intensity [of WiredMotifComponent Calm "13 / 10"]
      SetMotif_clamps_intensity [of NewMotifComponent Calm "13 / 10"] h n
    by blast
qed

subsection \<open>Emission rates and active flags\<close>

text \<open>
  Claim C8, as stated for every component, fails: each overlay pointer is checked for
  null before it is used. On a freshly constructed component no overlay is attached, so
  after \<^verbatim>\<open>UpdateVisualFX\<close> for Storm no overlay kind is active and none has received a
  rate; the call changes nothing.
\<close>

theorem overlays_counterexample:
  "ActiveKinds (UpdateVisualFX NewMotifComponent Storm (1 / 2)) = []
   \<and> EmissionRate (UpdateVisualFX NewMotifComponent Storm (1 / 2)) Storm = None
   \<and> UpdateVisualFX NewMotifComponent Storm (1 / 2) = NewMotifComponent"
  by (simp add: ActiveKinds_def IsActive_def EmissionRate_def UpdateVisualFX_Overlay_None
      Overlay_New)
    (simp add: UpdateVisualFX_def Let_def NewMotifComponent_def SetActiveIfPresent_def
      SetNiagaraFloatParameter_def)

text \<open>
  Claim C8, amended. The base rate is the linear interpolation from 10 to 200 over the
  intensity. Every overlay kind whose component is attached, and is not the component
  of another kind as well, gets the active flag \<open>motif = kind\<close> and the emission rate
  base times its multiplier (Storm 1, Calm 0.5, Cosmic 0.8, Oracle 0.6), active or not;
  a kind whose component is null is skipped. When all four are attached and are four
  different components, exactly one kind is active, the selected motif.
\<close>

theorem overlays_of_attached_components:
  "BaseRate I = 10 + I * (200 - 10)
   \<and> (Overlay c k \<noteq> None \<and> Unshared c k \<longrightarrow>
         IsActive (UpdateVisualFX c m I) k = (m = k)
         \<and> EmissionRate (UpdateVisualFX c m I) k = Some (BaseRate I * KindMultiplier k))
   \<and> (Overlay c k = None \<longrightarrow> Overlay (UpdateVisualFX c m I) k = None)
   \<and> (StormRain c \<noteq> None \<and> CalmFog c \<noteq> None \<and> CosmicAurora c \<noteq> None \<and> OracleRunes c \<noteq> None
        \<and> distinct [StormRain c, CalmFog c, CosmicAurora c, OracleRunes c] \<longrightarrow>
         ActiveKinds (UpdateVisualFX c m I) = [m]
         \<and> ActiveKinds (SetMotif c m i) = [m]
         \<and> EmissionRate (SetMotif c m i) k
             = Some (BaseRate (CurrentIntensity (SetMotif c m i)) * KindMultiplier k))"
proof -
  have all: "Unshared c k' \<and> Overlay c k' \<noteq> None"
    if "StormRain c \<noteq> None \<and> CalmFog c \<noteq> None \<and> CosmicAurora c \<noteq> None \<and> OracleRunes c \<noteq> None
        \<and> distinct [StormRain c, CalmFog c, CosmicAurora c, OracleRunes c]" for k'
    using that by (intro distinct_overlays_Unshared) simp_all
  have a1: "ActiveKinds (UpdateVisualFX c m I) = [m]"
    if "StormRain c \<noteq> None \<and> CalmFog c \<noteq> None \<and> CosmicAurora c \<noteq> None \<and> OracleRunes c \<noteq> None
        \<and> distinct [StormRain c, CalmFog c, CosmicAurora c, OracleRunes c]"
    by (rule ActiveKinds_all_attached) (simp add: IsActive_UpdateVisualFX all [OF that])
  have a2: "ActiveKinds (SetMotif c m i) = [m]"
    if "StormRain c \<noteq> None \<and> CalmFog c \<noteq> None \<and> CosmicAurora c \<noteq> None \<and> OracleRunes c \<noteq> None
        \<and> distinct [StormRain c, CalmFog c, CosmicAurora c, OracleRunes c]"
    by (rule ActiveKinds_all_attached) (simp add: IsActive_SetMotif all [OF that])
  have a3: "EmissionRate (SetMotif c m i) k
             = Some (BaseRate (CurrentIntensity (SetMotif c m i)) * KindMultiplier k)"
    if "StormRain c \<noteq> None \<and> CalmFog c \<noteq> None \<and> CosmicAurora c \<noteq> None \<and> OracleRunes c \<noteq> None
        \<and> distinct [StormRain c, CalmFog c, CosmicAurora c, OracleRunes c]"
    using all [OF that, of k]
    by (simp add: EmissionRate_SetMotif SetMotif_CurrentIntensity BaseRate_def)
  have b: "BaseRate I = 10 + I * (200 - 10)"
    by (simp add: BaseRate_def Lerp_def)
  have c1: "IsActive (UpdateVisualFX c m I) k = (m = k)
         \<and> EmissionRate (UpdateVisualFX c m I) k = Some (BaseRate I * KindMultiplier k)"
    if "Overlay c k \<noteq> None \<and> Unshared c k"
    using that by (simp add: IsActive_UpdateVisualFX EmissionRate_UpdateVisualFX BaseRate_def)
  have c2: "Overlay (UpdateVisualFX c m I) k = None" if "Overlay c k = None"
    using that by (rule UpdateVisualFX_Overlay_None)
  show ?thesis
    using a1 a2 a3 b c1 c2 by blast
qed

theorem overlays_of_attached_components_witness:
  "StormRain WiredMotifComponent \<noteq> None \<and> CalmFog WiredMotifComponent \<noteq> None
   \<and> CosmicAurora WiredMotifComponent \<noteq> None \<and> OracleRunes WiredMotifComponent \<noteq> None
   \<and> distinct [StormRain WiredMotifComponent, CalmFog WiredMotifComponent,
               CosmicAurora WiredMotifComponent, OracleRunes WiredMotifComponent]
   \<and> Overlay WiredMotifComponent Cosmic \<noteq> None \<and> Unshared WiredMotifComponent Cosmic
   \<and> Overlay NewMotifComponent Cosmic = None
   \<and> IsActive (UpdateVisualFX WiredMotifComponent Calm (1 / 2)) Cosmic = (Calm = Cosmic)
   \<and> EmissionRate (UpdateVisualFX WiredMotifComponent Calm (1 / 2)) Cosmic
       = Some (BaseRate (1 / 2) * KindMultiplier Cosmic)
   \<and> Overlay (UpdateVisualFX NewMotifComponent Calm (1 / 2)) Cosmic = None
   \<and> ActiveKinds (UpdateVisualFX WiredMotifComponent Calm (1 / 2)) = [Calm]
   \<and> ActiveKinds (SetMotif WiredMotifComponent Calm (1 / 2)) = [Calm]"
proof -
  have h: "StormRain WiredMotifComponent \<noteq> None \<and> CalmFog WiredMotifComponent \<noteq> None
     \<and> CosmicAurora WiredMotifComponent \<noteq> None \<and> OracleRunes WiredMotifComponent \<noteq> None
     \<and> distinct [StormRain WiredMotifComponent, CalmFog WiredMotifComponent,
                 CosmicAurora WiredMotifComponent, OracleRunes WiredMotifComponent]"
    by (simp add: WiredMotifComponent_def)
  have u: "Overlay WiredMotifComponent Cosmic \<noteq> None \<and> Unshared WiredMotifComponent Cosmic"
    by (simp add: Overlay_Wired Unshared_Wired)
  have n: "Overlay NewMotifComponent Cosmic = None"
    by (rule Overlay_New)
  show ?thesis
    using overlays_of_attached_components
      [of "1 / 2" WiredMotifComponent Cosmic Calm "1 / 2"]
      overlays_of_attached_components [of "1 / 2" NewMotifComponent Cosmic Calm "1 / 2"]
      h u n
    by blast
qed

subsection \<open>Track swaps\<close>

text \<open>
  Claim C9, as stated for every call, fails: \<^verbatim>\<open>UpdateAudio\<close> returns at once when the
  music bus pointer is null, so pitch and volume are not applied on such a call. On a
  freshly constructed component the call changes nothing.
\<close>

theorem track_swap_counterexample:
  "MusicBus NewMotifComponent = None
   \<and> MusicBus (SetMotif NewMotifComponent Storm (1 / 2)) = None
   \<and> UpdateAudio NewMotifComponent Storm (1 / 2) = NewMotifComponent"
  by (simp add: SetMotif_MusicBus UpdateAudio_def NewMotifComponent_def)

text \<open>
  Claim C9, amended. With a music bus attached, a call of \<^verbatim>\<open>SetMotif\<close> sets the sound
  and issues one play exactly when the motif has a track assigned that differs, by
  identity, from the sound on the bus, and otherwise leaves sound and play count alone;
  in both cases it applies the pitch and volume multipliers recomputed from the stored
  intensity. With no music bus there is no audio effect. In every case a second call in
  a row with the same motif starts no track.
\<close>

theorem track_swap_suppression:
  "(\<forall>bus. MusicBus c = Some bus \<longrightarrow>
      (\<exists>bus'. MusicBus (SetMotif c m i) = Some bus'
         \<and> PitchMultiplier bus' = Lerp (95 / 100) (108 / 100) (CurrentIntensity (SetMotif c m i))
         \<and> VolumeMultiplier bus' = Lerp (6 / 10) 1 (CurrentIntensity (SetMotif c m i))
         \<and> (if TargetMusic c m \<noteq> None \<and> Sound bus \<noteq> TargetMusic c m
            then PlayCalls bus' = Suc (PlayCalls bus) \<and> Sound bus' = TargetMusic c m
            else PlayCalls bus' = PlayCalls bus \<and> Sound bus' = Sound bus)))
   \<and> (MusicBus c = None \<longrightarrow> MusicBus (SetMotif c m i) = None)
   \<and> TrackStarts (SetMotif (SetMotif c m i) m i') = TrackStarts (SetMotif c m i)"
proof -
  have one: "\<exists>bus'. MusicBus (SetMotif c m i) = Some bus'
         \<and> PitchMultiplier bus' = Lerp (95 / 100) (108 / 100) (CurrentIntensity (SetMotif c m i))
         \<and> VolumeMultiplier bus' = Lerp (6 / 10) 1 (CurrentIntensity (SetMotif c m i))
         \<and> (if TargetMusic c m \<noteq> None \<and> Sound bus \<noteq> TargetMusic c m
            then PlayCalls bus' = Suc (PlayCalls bus) \<and> Sound bus' = TargetMusic c m
            else PlayCalls bus' = PlayCalls bus \<and> Sound bus' = Sound bus)"
    if "MusicBus c = Some bus" for bus
    using that by (auto simp: SetMotif_MusicBus SetMotif_CurrentIntensity BusAfter_def)
  have none: "MusicBus (SetMotif c m i) = None" if "MusicBus c = None"
    using that by (simp add: SetMotif_MusicBus)
  have twice: "TrackStarts (SetMotif (SetMotif c m i) m i') = TrackStarts (SetMotif c m i)"
    by (cases "MusicBus c")
      (auto simp: TrackStarts_def SetMotif_MusicBus SetMotif_TargetMusic BusAfter_def)
  show ?thesis
    using one none twice by blast
qed

theorem track_swap_suppression_witness:
  "MusicBus WiredMotifComponent = Some IdleBus
   \<and> TargetMusic WiredMotifComponent Storm \<noteq> None
   \<and> Sound IdleBus \<noteq> TargetMusic WiredMotifComponent Storm
   \<and> TrackStarts (SetMotif WiredMotifComponent Storm (1 / 2)) = Suc (PlayCalls IdleBus)
   \<and> TrackStarts (SetMotif (SetMotif WiredMotifComponent Storm (1 / 2)) Storm (3 / 4))
       = TrackStarts (SetMotif WiredMotifComponent Storm (1 / 2))"
proof -
  have h1: "MusicBus WiredMotifComponent = Some IdleBus"
    by (simp add: WiredMotifComponent_def)
  have h2: "TargetMusic WiredMotifComponent Storm \<noteq> None"
    by (simp add: TargetMusic_def WiredMotifComponent_def)
  have h3: "Sound IdleBus \<noteq> TargetMusic WiredMotifComponent Storm"
    by (simp add: TargetMusic_def WiredMotifComponent_def IdleBus_def)
  from track_swap_suppression [of WiredMotifComponent Storm "1 / 2" "3 / 4"] h1 h2 h3
  obtain bus' where "MusicBus (SetMotif WiredMotifComponent Storm (1 / 2)) = Some bus'"
    and "PlayCalls bus' = Suc (PlayCalls IdleBus)"
    and "TrackStarts (SetMotif (SetMotif WiredMotifComponent Storm (1 / 2)) Storm (3 / 4))
           = TrackStarts (SetMotif WiredMotifComponent Storm (1 / 2))"
    by auto
  then show ?thesis
    using h1 h2 h3 by (simp add: TrackStarts_def)
qed

end
